theory Spec2Isabelle
  imports Main
begin

section \<open>The tutoring saga of ms-tutorias\<close>

text \<open>
  A shallow embedding of \<^verbatim>\<open>src/ms-tutorias/src/domain/services/tutoria.service.js\<close>:
  the helper \<^verbatim>\<open>track\<close> and the orchestrator \<^verbatim>\<open>solicitarTutoria\<close>.

  The four collaborators (\<^verbatim>\<open>usuariosClient\<close>, \<^verbatim>\<open>agendaClient\<close>,
  \<^verbatim>\<open>tutoriaRepository\<close> and the message producer) are required modules whose code is
  not part of the service file. They are parameters of the model: a record of functions
  that give, for the arguments of each call, how the call ends. Every call the service makes
  is appended to a log of effects, with the arguments it was given, so that properties about
  which calls happen, how often, in which order and with which arguments are properties of
  that log.

  An awaited call that throws before returning is a rejection of the model: both reach the
  \<^verbatim>\<open>catch\<close> block in the same way. \<^verbatim>\<open>publishTrackingEvent\<close> and
  \<^verbatim>\<open>console.error\<close> are taken to return normally. A call may reject with, or throw,
  any value: \<^verbatim>\<open>null\<close> and \<^verbatim>\<open>undefined\<close> included, on which the reads of
  \<^verbatim>\<open>.message\<close> in the \<^verbatim>\<open>catch\<close> block and in its two inner handlers throw a
  \<^verbatim>\<open>TypeError\<close> of their own.

  Strings are lists of 8-bit characters. The accented letters of the Spanish messages lie in
  the Latin-1 range, where one character is one UTF-16 code unit of the JavaScript string.
\<close>

subsection \<open>Values\<close>

abbreviation (input) i_aguda :: char where "i_aguda \<equiv> CHR 0xED"
abbreviation (input) o_aguda :: char where "o_aguda \<equiv> CHR 0xF3"
abbreviation (input) I_aguda :: char where "I_aguda \<equiv> CHR 0xCD"
abbreviation (input) comilla :: char where "comilla \<equiv> CHR 0x27"

text \<open>The object handed to \<^verbatim>\<open>publishTrackingEvent\<close> (lines 9-15).
  \<^verbatim>\<open>timestamp\<close> is the reading of the clock at the time of the call.\<close>

record evento =
  service :: string
  message :: string
  cid :: string
  timestamp :: nat
  status :: string

text \<open>What the service reads of a thrown value that is not \<^verbatim>\<open>null\<close> or
  \<^verbatim>\<open>undefined\<close>: the properties \<^verbatim>\<open>statusCode\<close> and \<^verbatim>\<open>message\<close>.
  \<open>None\<close> is a property that is missing (as both are on a thrown string or number).\<close>

record js_error =
  statusCode :: "int option"
  message :: "string option"

text \<open>A thrown value, or the reason of a rejection: \<^verbatim>\<open>null\<close> or
  \<^verbatim>\<open>undefined\<close> (\<open>Nulo\<close>), whose properties cannot be read, or any other value.\<close>

datatype lanzado = Nulo | Objeto js_error

text \<open>What the service reads of a user: \<^verbatim>\<open>email\<close>, and the name under either of
  two spellings (line 87). \<open>None\<close> is a missing property.\<close>

record usuario =
  email :: "string option"
  nombrecompleto :: "string option"
  nombreCompleto :: "string option"

text \<open>A row as the repository resolves it. The service reads \<^verbatim>\<open>idtutoria\<close> only;
  the remaining columns are carried along uninterpreted.\<close>

record tutoria =
  idtutoria :: "nat option"
  columnas :: "(string \<times> string) list"

text \<open>\<^verbatim>\<open>new Date(fechaSolicitada)\<close> (line 55).\<close>

datatype js_date = NewDate string

text \<open>The two object shapes given to \<^verbatim>\<open>tutoriaRepository.save\<close>:
  \<^item> \<open>TutoriaPendiente idEstudiante idTutor fecha materia estado\<close> (lines 52-58);
  \<^item> \<open>CambioEstado idTutoria estado error\<close> (lines 100-104 and 149-153), where
    \<open>error = None\<close> is \<^verbatim>\<open>null\<close>.\<close>

datatype save_payload =
  TutoriaPendiente nat nat js_date string string
| CambioEstado "nat option" string "string option"

text \<open>The two object shapes given to the scheduling client:
  \<^item> \<open>BloqueoPayload fechaInicio duracionMinutos idEstudiante\<close> (lines 69-73);
  \<^item> \<open>CancelacionPayload fechaInicio duracionMinutos\<close> (lines 125-128).\<close>

datatype agenda_payload =
  BloqueoPayload string nat nat
| CancelacionPayload string nat

record notificacion =
  destinatario :: "string option"
  asunto :: string
  cuerpo :: string
  correlationId :: string

record datosSolicitud =
  idEstudiante :: nat
  idTutor :: nat
  fechaSolicitada :: string
  duracionMinutos :: nat
  materia :: string

subsection \<open>Collaborators and effects\<close>

text \<open>How an awaited promise settles.\<close>

datatype 'a promesa = Resuelve 'a | Rechaza lanzado

text \<open>How a call that is not awaited ends (\<^verbatim>\<open>publishToQueue\<close>, line 91): it returns
  (\<open>Retorna\<close>), it returns a promise that later rejects, which nobody observes
  (\<open>RetornaRechazada\<close>), or it throws before returning (\<open>Lanza\<close>).\<close>

datatype retorno = Retorna | RetornaRechazada lanzado | Lanza lanzado

text \<open>The collaborators. \<open>tutorRechazaPrimero\<close> decides the race of
  \<^verbatim>\<open>Promise.all\<close> when both lookups reject; \<open>reloj n\<close> is the clock read after
  \<open>n\<close> effects. A lookup that resolves to \<open>None\<close> resolves to a falsy value, and a
  \<^verbatim>\<open>save\<close> that resolves to \<open>None\<close> resolves to \<^verbatim>\<open>null\<close> or
  \<^verbatim>\<open>undefined\<close>.\<close>

record colaboradores =
  getUsuario :: "string \<Rightarrow> nat \<Rightarrow> string \<Rightarrow> usuario option promesa"
  tutorRechazaPrimero :: bool
  verificarDisponibilidad :: "nat \<Rightarrow> string \<Rightarrow> string \<Rightarrow> bool promesa"
  save :: "save_payload \<Rightarrow> tutoria option promesa"
  bloquearAgenda :: "nat \<Rightarrow> agenda_payload \<Rightarrow> string \<Rightarrow> unit promesa"
  cancelarBloqueo :: "nat \<Rightarrow> agenda_payload \<Rightarrow> string \<Rightarrow> unit promesa"
  publishToQueue :: "string \<Rightarrow> notificacion \<Rightarrow> retorno"
  reloj :: "nat \<Rightarrow> nat"

text \<open>One entry of the log for each call that leaves the service, with its arguments.\<close>

datatype llamada =
  GetUsuario string nat string
| VerificarDisponibilidad nat string string
| Save save_payload
| BloquearAgenda nat agenda_payload string
| CancelarBloqueo nat agenda_payload string
| PublishToQueue string notificacion
| PublishTrackingEvent evento
| ConsoleError string

text \<open>The state of one invocation: the variable \<^verbatim>\<open>nuevaTutoria\<close> (line 21,
  \<open>None\<close> while it is \<^verbatim>\<open>undefined\<close> or \<^verbatim>\<open>null\<close>) and the log.\<close>

record saga =
  nuevaTutoria :: "tutoria option"
  efectos :: "llamada list"

type_synonym 'a accion = "saga \<Rightarrow> (lanzado + 'a) \<times> saga"

definition retornar :: "'a \<Rightarrow> 'a accion" where
  "retornar v s = (Inr v, s)"

definition throw :: "lanzado \<Rightarrow> 'a accion" where
  "throw e s = (Inl e, s)"

definition luego :: "'a accion \<Rightarrow> ('a \<Rightarrow> 'b accion) \<Rightarrow> 'b accion" where
  "luego m f s = (case m s of (Inl e, s') \<Rightarrow> (Inl e, s') | (Inr v, s') \<Rightarrow> f v s')"

definition try_catch :: "'a accion \<Rightarrow> (lanzado \<Rightarrow> 'a accion) \<Rightarrow> 'a accion" where
  "try_catch m h s = (case m s of (Inl e, s') \<Rightarrow> h e s' | (Inr v, s') \<Rightarrow> (Inr v, s'))"

definition registrar :: "llamada \<Rightarrow> unit accion" where
  "registrar l s = (Inr (), s\<lparr>efectos := efectos s @ [l]\<rparr>)"

definition asignar_nuevaTutoria :: "tutoria option \<Rightarrow> unit accion" where
  "asignar_nuevaTutoria v s = (Inr (), s\<lparr>nuevaTutoria := v\<rparr>)"

definition await :: "'a promesa \<Rightarrow> 'a accion" where
  "await p s = (case p of Resuelve v \<Rightarrow> (Inr v, s) | Rechaza e \<Rightarrow> (Inl e, s))"

definition sin_await :: "retorno \<Rightarrow> unit accion" where
  "sin_await r s = (case r of Lanza e \<Rightarrow> (Inl e, s) | _ \<Rightarrow> (Inr (), s))"

text \<open>\<^verbatim>\<open>Promise.all\<close> of two promises: it resolves when both do, and rejects with the
  rejection that comes first.\<close>

definition promise_all :: "bool \<Rightarrow> 'a promesa \<Rightarrow> 'b promesa \<Rightarrow> ('a \<times> 'b) promesa" where
  "promise_all segundoPrimero p q =
     (case p of
        Resuelve a \<Rightarrow> (case q of Resuelve b \<Rightarrow> Resuelve (a, b) | Rechaza y \<Rightarrow> Rechaza y)
      | Rechaza x \<Rightarrow>
          (case q of Resuelve b \<Rightarrow> Rechaza x
           | Rechaza y \<Rightarrow> Rechaza (if segundoPrimero then y else x)))"

subsection \<open>JavaScript expressions\<close>

text \<open>Decimal rendering of a number inside a template literal.\<close>

fun decimal :: "nat \<Rightarrow> string" where
  "decimal n =
     (if n < 10 then [char_of (48 + n)] else decimal (n div 10) @ [char_of (48 + n mod 10)])"

declare decimal.simps [simp del]

definition plantilla_num :: "nat option \<Rightarrow> string" where
  "plantilla_num v = (case v of None \<Rightarrow> ''undefined'' | Some n \<Rightarrow> decimal n)"

definition plantilla_str :: "string option \<Rightarrow> string" where
  "plantilla_str v = (case v of None \<Rightarrow> ''undefined'' | Some x \<Rightarrow> x)"

text \<open>\<^verbatim>\<open>a || b\<close> on possibly missing strings: the empty string is falsy.\<close>

definition o_bien :: "string option \<Rightarrow> string option \<Rightarrow> string option" where
  "o_bien a b = (case a of None \<Rightarrow> b | Some x \<Rightarrow> if x = [] then b else a)"

text \<open>\<^verbatim>\<open>error.statusCode || 500\<close> (line 167): zero is falsy.\<close>

definition statusCode_o_500 :: "js_error \<Rightarrow> int" where
  "statusCode_o_500 error =
     (case statusCode error of None \<Rightarrow> 500 | Some n \<Rightarrow> if n = 0 then 500 else n)"

text \<open>Truthiness of a possibly missing number: \<^verbatim>\<open>undefined\<close> and zero are falsy.\<close>

definition verdadero :: "nat option \<Rightarrow> bool" where
  "verdadero v = (case v of None \<Rightarrow> False | Some n \<Rightarrow> n \<noteq> 0)"

text \<open>The \<^verbatim>\<open>TypeError\<close> of reading \<^verbatim>\<open>idtutoria\<close> of \<^verbatim>\<open>null\<close> or
  \<^verbatim>\<open>undefined\<close> (line 62). It has no \<^verbatim>\<open>statusCode\<close>; the wording of its
  message is the engine's.\<close>

definition typeError :: js_error where
  "typeError = \<lparr>statusCode = None,
     message = Some (''Cannot read properties of undefined (reading '' @ [comilla] @ ''idtutoria''
       @ [comilla] @ '')'')\<rparr>"

text \<open>The \<^verbatim>\<open>TypeError\<close> of reading \<^verbatim>\<open>message\<close> of a caught value that is
  \<^verbatim>\<open>null\<close> or \<^verbatim>\<open>undefined\<close> (lines 113, 137 and 160).\<close>

definition typeErrorMessage :: js_error where
  "typeErrorMessage = \<lparr>statusCode = None,
     message = Some (''Cannot read properties of undefined (reading '' @ [comilla] @ ''message''
       @ [comilla] @ '')'')\<rparr>"

text \<open>Reading the properties of a caught value.\<close>

definition leer :: "lanzado \<Rightarrow> js_error accion" where
  "leer v = (case v of Nulo \<Rightarrow> throw (Objeto typeErrorMessage) | Objeto e \<Rightarrow> retornar e)"

subsection \<open>track\<close>

text \<open>Lines 8-16. The third parameter defaults to \<^verbatim>\<open>'INFO'\<close>; \<open>None\<close> is the
  omitted argument.\<close>

definition track :: "colaboradores \<Rightarrow> string \<Rightarrow> string \<Rightarrow> string option \<Rightarrow> unit accion" where
  "track c cid0 message0 status0 s =
     registrar (PublishTrackingEvent
       \<lparr>service = ''MS_Tutorias'',
        message = message0,
        cid = cid0,
        timestamp = reloj c (length (efectos s)),
        status = (case status0 of None \<Rightarrow> ''INFO'' | Some x \<Rightarrow> x)\<rparr>) s"

subsection \<open>solicitarTutoria\<close>

text \<open>The body of the \<^verbatim>\<open>try\<close> block, lines 23-110.\<close>

definition tutoriaConfirmadaPayload :: "tutoria \<Rightarrow> save_payload" where
  "tutoriaConfirmadaPayload nt = CambioEstado (idtutoria nt) ''CONFIRMADA'' None"

definition confirmar ::
  "colaboradores \<Rightarrow> string \<Rightarrow> tutoria \<Rightarrow> tutoria option accion" where
  "confirmar c correlationId0 nt =
     luego (track c correlationId0 (''Actualizando tutor'' @ i_aguda # ''a a CONFIRMADA...'') None) (\<lambda>_.
     luego (registrar (Save (tutoriaConfirmadaPayload nt))) (\<lambda>_.
     luego (await (save c (tutoriaConfirmadaPayload nt))) (\<lambda>tutoriaConfirmada.
     luego (track c correlationId0 (''Tutor'' @ i_aguda # ''a CONFIRMADA correctamente.'') None) (\<lambda>_.
     retornar tutoriaConfirmada))))"

definition payloadNotificacion ::
  "datosSolicitud \<Rightarrow> string \<Rightarrow> usuario \<Rightarrow> usuario \<Rightarrow> notificacion" where
  "payloadNotificacion datos correlationId0 estudiante tutor =
     \<lparr>destinatario = email estudiante,
      asunto = ''Tutor'' @ i_aguda # ''a de '' @ materia datos @ '' confirmada'',
      cuerpo = ''Hola ''
        @ plantilla_str (o_bien (nombrecompleto estudiante) (nombreCompleto estudiante))
        @ '', tu tutor'' @ i_aguda # ''a con ''
        @ plantilla_str (o_bien (nombrecompleto tutor) (nombreCompleto tutor))
        @ '' ha sido confirmada.'',
      correlationId = correlationId0\<rparr>"

definition notificar ::
  "colaboradores \<Rightarrow> datosSolicitud \<Rightarrow> string \<Rightarrow> usuario \<Rightarrow> usuario \<Rightarrow> unit accion" where
  "notificar c datos correlationId0 estudiante tutor =
     luego (track c correlationId0 (''Publicando evento de notificaci'' @ o_aguda # ''n...'') None) (\<lambda>_.
     luego (registrar (PublishToQueue ''notificaciones_email_queue''
              (payloadNotificacion datos correlationId0 estudiante tutor))) (\<lambda>_.
     luego (sin_await (publishToQueue c ''notificaciones_email_queue''
              (payloadNotificacion datos correlationId0 estudiante tutor))) (\<lambda>_.
     track c correlationId0 (''Evento de notificaci'' @ o_aguda # ''n enviado.'') None)))"

definition bloqueoPayload :: "datosSolicitud \<Rightarrow> agenda_payload" where
  "bloqueoPayload datos =
     BloqueoPayload (fechaSolicitada datos) (duracionMinutos datos) (idEstudiante datos)"

definition bloquear :: "colaboradores \<Rightarrow> datosSolicitud \<Rightarrow> string \<Rightarrow> unit accion" where
  "bloquear c datos correlationId0 =
     luego (track c correlationId0 ''Bloqueando horario en agenda...'' None) (\<lambda>_.
     luego (registrar (BloquearAgenda (idTutor datos) (bloqueoPayload datos) correlationId0)) (\<lambda>_.
     luego (await (bloquearAgenda c (idTutor datos) (bloqueoPayload datos) correlationId0)) (\<lambda>_.
     track c correlationId0 ''Bloqueo de agenda exitoso.'' None)))"

definition tutoriaPendiente :: "datosSolicitud \<Rightarrow> save_payload" where
  "tutoriaPendiente datos =
     TutoriaPendiente (idEstudiante datos) (idTutor datos) (NewDate (fechaSolicitada datos))
       (materia datos) ''PENDIENTE''"

definition crearPendiente :: "colaboradores \<Rightarrow> datosSolicitud \<Rightarrow> string \<Rightarrow> tutoria accion" where
  "crearPendiente c datos correlationId0 =
     luego (track c correlationId0 (''Creando tutor'' @ i_aguda # ''a en estado PENDIENTE...'') None) (\<lambda>_.
     luego (registrar (Save (tutoriaPendiente datos))) (\<lambda>_.
     luego (await (save c (tutoriaPendiente datos))) (\<lambda>guardada.
     luego (asignar_nuevaTutoria guardada) (\<lambda>_.
     (case guardada of
        None \<Rightarrow> throw (Objeto typeError)
      | Some nt \<Rightarrow>
          luego (track c correlationId0
                   (''Tutor'' @ i_aguda # ''a PENDIENTE creada (ID: '' @ plantilla_num (idtutoria nt) @ '').'')
                   None) (\<lambda>_.
          retornar nt))))))"

definition verificar :: "colaboradores \<Rightarrow> datosSolicitud \<Rightarrow> string \<Rightarrow> unit accion" where
  "verificar c datos correlationId0 =
     luego (track c correlationId0 ''Verificando disponibilidad de agenda...'' None) (\<lambda>_.
     luego (registrar (VerificarDisponibilidad (idTutor datos) (fechaSolicitada datos) correlationId0)) (\<lambda>_.
     luego (await (verificarDisponibilidad c (idTutor datos) (fechaSolicitada datos) correlationId0)) (\<lambda>disponible.
     if \<not> disponible then throw (Objeto \<lparr>statusCode = Some 409, message = Some ''Horario no disponible''\<rparr>)
     else track c correlationId0 ''Agenda disponible.'' None)))"

definition validarUsuarios ::
  "colaboradores \<Rightarrow> datosSolicitud \<Rightarrow> string \<Rightarrow> (usuario \<times> usuario) accion" where
  "validarUsuarios c datos correlationId0 =
     luego (track c correlationId0 ''Validando usuarios...'' None) (\<lambda>_.
     luego (registrar (GetUsuario ''estudiantes'' (idEstudiante datos) correlationId0)) (\<lambda>_.
     luego (registrar (GetUsuario ''tutores'' (idTutor datos) correlationId0)) (\<lambda>_.
     luego (await (promise_all (tutorRechazaPrimero c)
              (getUsuario c ''estudiantes'' (idEstudiante datos) correlationId0)
              (getUsuario c ''tutores'' (idTutor datos) correlationId0))) (\<lambda>(estudiante, tutor).
     (case estudiante of
        None \<Rightarrow> throw (Objeto \<lparr>statusCode = Some 404, message = Some ''Estudiante no encontrado''\<rparr>)
      | Some est \<Rightarrow>
          (case tutor of
             None \<Rightarrow> throw (Objeto \<lparr>statusCode = Some 404, message = Some ''Tutor no encontrado''\<rparr>)
           | Some tut \<Rightarrow>
               luego (track c correlationId0 ''Usuarios validados exitosamente.'' None) (\<lambda>_.
               retornar (est, tut))))))))"

definition intento :: "colaboradores \<Rightarrow> datosSolicitud \<Rightarrow> string \<Rightarrow> tutoria option accion" where
  "intento c datos correlationId0 =
     luego (validarUsuarios c datos correlationId0) (\<lambda>(estudiante, tutor).
     luego (verificar c datos correlationId0) (\<lambda>_.
     luego (crearPendiente c datos correlationId0) (\<lambda>nt.
     luego (bloquear c datos correlationId0) (\<lambda>_.
     luego (notificar c datos correlationId0 estudiante tutor) (\<lambda>_.
     confirmar c correlationId0 nt)))))"

text \<open>The \<^verbatim>\<open>catch\<close> block, lines 112-170. The first thing it does with the caught
  value is to read its \<^verbatim>\<open>message\<close> (line 113), and so do the handlers of the two
  inner \<^verbatim>\<open>try\<close> blocks with theirs (lines 137 and 160); nothing catches what these
  reads throw. The condition of line 145, \<^verbatim>\<open>nuevaTutoria && nuevaTutoria.idtutoria\<close>,
  is the case distinction of \<open>marcarFallida\<close>.\<close>

definition cancelacionPayload :: "datosSolicitud \<Rightarrow> agenda_payload" where
  "cancelacionPayload datos = CancelacionPayload (fechaSolicitada datos) (duracionMinutos datos)"

definition revertirBloqueo :: "colaboradores \<Rightarrow> datosSolicitud \<Rightarrow> string \<Rightarrow> unit accion" where
  "revertirBloqueo c datos correlationId0 =
     try_catch
       (luego (registrar (CancelarBloqueo (idTutor datos) (cancelacionPayload datos) correlationId0)) (\<lambda>_.
        luego (await (cancelarBloqueo c (idTutor datos) (cancelacionPayload datos) correlationId0)) (\<lambda>_.
        track c correlationId0 ''Bloqueo de agenda revertido.'' (Some ''ERROR''))))
       (\<lambda>cancelError.
          luego (leer cancelError) (\<lambda>ce.
          track c correlationId0
            (''ERROR CR'' @ I_aguda # ''TICO al intentar revertir el bloqueo en agenda: ''
               @ plantilla_str (message ce))
            (Some ''ERROR'')))"

text \<open>Lines 149-153: \<^verbatim>\<open>error\<close> is \<^verbatim>\<open>error.message\<close>, missing when the failure
  has none.\<close>

definition tutoriaFallidaPayload :: "tutoria \<Rightarrow> js_error \<Rightarrow> save_payload" where
  "tutoriaFallidaPayload nt error = CambioEstado (idtutoria nt) ''FALLIDA'' (message error)"

definition marcarFallida :: "colaboradores \<Rightarrow> string \<Rightarrow> js_error \<Rightarrow> unit accion" where
  "marcarFallida c correlationId0 error s =
     (case nuevaTutoria s of
        None \<Rightarrow> retornar () s
      | Some nt \<Rightarrow>
          if verdadero (idtutoria nt) then
            luego (track c correlationId0 (''Marcando tutor'' @ i_aguda # ''a como FALLIDA...'') (Some ''ERROR'')) (\<lambda>_.
            try_catch
              (luego (registrar (Save (tutoriaFallidaPayload nt error))) (\<lambda>_.
               luego (await (save c (tutoriaFallidaPayload nt error))) (\<lambda>_.
               track c correlationId0 (''Tutor'' @ i_aguda # ''a marcada como FALLIDA.'') (Some ''ERROR''))))
              (\<lambda>compError.
                 luego (leer compError) (\<lambda>ce.
                 track c correlationId0
                   (''ERROR CR'' @ I_aguda # ''TICO guardando tutor'' @ i_aguda # ''a FALLIDA: ''
                      @ plantilla_str (message ce))
                   (Some ''ERROR'')))) s
          else retornar () s)"

text \<open>The object thrown at lines 166-169.\<close>

definition errorFinal :: "js_error \<Rightarrow> js_error" where
  "errorFinal error =
     \<lparr>statusCode = Some (statusCode_o_500 error),
      message = Some (''No se pudo completar la solicitud: '' @ plantilla_str (message error))\<rparr>"

definition compensacion ::
  "colaboradores \<Rightarrow> datosSolicitud \<Rightarrow> string \<Rightarrow> lanzado \<Rightarrow> tutoria option accion" where
  "compensacion c datos correlationId0 caught =
     luego (leer caught) (\<lambda>error.
     luego (registrar (ConsoleError
              (''[MS_Tutorias] CID: '' @ correlationId0 @ '' - ERROR: ''
                 @ plantilla_str (message error)))) (\<lambda>_.
     luego (track c correlationId0 (''ERROR: '' @ plantilla_str (message error)) (Some ''ERROR'')) (\<lambda>_.
     luego (track c correlationId0
              (''Compensaci'' @ o_aguda # ''n: cancelando bloqueo de agenda...'') (Some ''ERROR'')) (\<lambda>_.
     luego (revertirBloqueo c datos correlationId0) (\<lambda>_.
     luego (marcarFallida c correlationId0 error) (\<lambda>_.
     throw (Objeto (errorFinal error))))))))"

definition inicio :: saga where
  "inicio = \<lparr>nuevaTutoria = None, efectos = []\<rparr>"

text \<open>The function itself: what it returns or throws, and the log of its effects.\<close>

definition solicitarTutoria ::
  "colaboradores \<Rightarrow> datosSolicitud \<Rightarrow> string \<Rightarrow> (lanzado + tutoria option) \<times> llamada list" where
  "solicitarTutoria c datos correlationId0 =
     (case try_catch (intento c datos correlationId0)
             (compensacion c datos correlationId0) inicio of
        (r, s) \<Rightarrow> (r, efectos s))"

subsection \<open>Traces\<close>

text \<open>The log entry that a call of \<^verbatim>\<open>track\<close> leaves when \<open>n\<close> effects came before it.\<close>

definition ev :: "colaboradores \<Rightarrow> string \<Rightarrow> string \<Rightarrow> string \<Rightarrow> nat \<Rightarrow> llamada" where
  "ev c k m st n = PublishTrackingEvent
     \<lparr>service = ''MS_Tutorias'', message = m, cid = k, timestamp = reloj c n, status = st\<rparr>"

text \<open>The two lookups of step 1 under \<^verbatim>\<open>Promise.all\<close> (lines 28-31).\<close>

definition usuarios ::
  "colaboradores \<Rightarrow> datosSolicitud \<Rightarrow> string \<Rightarrow> (usuario option \<times> usuario option) promesa" where
  "usuarios c d k = promise_all (tutorRechazaPrimero c)
      (getUsuario c ''estudiantes'' (idEstudiante d) k) (getUsuario c ''tutores'' (idTutor d) k)"

definition agrega :: "saga \<Rightarrow> llamada list \<Rightarrow> saga" where
  "agrega s ls = s\<lparr>efectos := efectos s @ ls\<rparr>"

text \<open>The log of the \<^verbatim>\<open>try\<close> block up to each of its awaited calls, and to its end.\<close>

definition traza_usuarios :: "colaboradores \<Rightarrow> datosSolicitud \<Rightarrow> string \<Rightarrow> llamada list" where
  "traza_usuarios c d k =
     [ev c k ''Validando usuarios...'' ''INFO'' 0,
      GetUsuario ''estudiantes'' (idEstudiante d) k,
      GetUsuario ''tutores'' (idTutor d) k]"

definition traza_verificar :: "colaboradores \<Rightarrow> datosSolicitud \<Rightarrow> string \<Rightarrow> llamada list" where
  "traza_verificar c d k = traza_usuarios c d k @
     [ev c k ''Usuarios validados exitosamente.'' ''INFO'' 3,
      ev c k ''Verificando disponibilidad de agenda...'' ''INFO'' 4,
      VerificarDisponibilidad (idTutor d) (fechaSolicitada d) k]"

definition traza_crear :: "colaboradores \<Rightarrow> datosSolicitud \<Rightarrow> string \<Rightarrow> llamada list" where
  "traza_crear c d k = traza_verificar c d k @
     [ev c k ''Agenda disponible.'' ''INFO'' 6,
      ev c k (''Creando tutor'' @ i_aguda # ''a en estado PENDIENTE...'') ''INFO'' 7,
      Save (tutoriaPendiente d)]"

definition traza_bloquear ::
  "colaboradores \<Rightarrow> datosSolicitud \<Rightarrow> string \<Rightarrow> tutoria \<Rightarrow> llamada list" where
  "traza_bloquear c d k nt = traza_crear c d k @
     [ev c k (''Tutor'' @ i_aguda # ''a PENDIENTE creada (ID: '' @ plantilla_num (idtutoria nt) @ '').'')
        ''INFO'' 9,
      ev c k ''Bloqueando horario en agenda...'' ''INFO'' 10,
      BloquearAgenda (idTutor d) (bloqueoPayload d) k]"

definition traza_publicar ::
  "colaboradores \<Rightarrow> datosSolicitud \<Rightarrow> string \<Rightarrow> tutoria \<Rightarrow> usuario \<Rightarrow> usuario \<Rightarrow> llamada list" where
  "traza_publicar c d k nt est tut = traza_bloquear c d k nt @
     [ev c k ''Bloqueo de agenda exitoso.'' ''INFO'' 12,
      ev c k (''Publicando evento de notificaci'' @ o_aguda # ''n...'') ''INFO'' 13,
      PublishToQueue ''notificaciones_email_queue'' (payloadNotificacion d k est tut)]"

definition traza_confirmar ::
  "colaboradores \<Rightarrow> datosSolicitud \<Rightarrow> string \<Rightarrow> tutoria \<Rightarrow> usuario \<Rightarrow> usuario \<Rightarrow> llamada list" where
  "traza_confirmar c d k nt est tut = traza_publicar c d k nt est tut @
     [ev c k (''Evento de notificaci'' @ o_aguda # ''n enviado.'') ''INFO'' 15,
      ev c k (''Actualizando tutor'' @ i_aguda # ''a a CONFIRMADA...'') ''INFO'' 16,
      Save (tutoriaConfirmadaPayload nt)]"

definition traza_confirmada ::
  "colaboradores \<Rightarrow> datosSolicitud \<Rightarrow> string \<Rightarrow> tutoria \<Rightarrow> usuario \<Rightarrow> usuario \<Rightarrow> llamada list" where
  "traza_confirmada c d k nt est tut = traza_confirmar c d k nt est tut @
     [ev c k (''Tutor'' @ i_aguda # ''a CONFIRMADA correctamente.'') ''INFO'' 18]"

text \<open>What the change to \<^verbatim>\<open>FALLIDA\<close> (lines 145-164) adds to a log of \<open>n\<close>
  entries, and whether the read of line 160 throws.\<close>

definition traza_marca ::
  "colaboradores \<Rightarrow> string \<Rightarrow> js_error \<Rightarrow> tutoria option \<Rightarrow> nat \<Rightarrow> llamada list" where
  "traza_marca c k e nueva n =
     (case nueva of
        None \<Rightarrow> []
      | Some nt \<Rightarrow>
          if verdadero (idtutoria nt) then
            [ev c k (''Marcando tutor'' @ i_aguda # ''a como FALLIDA...'') ''ERROR'' n,
             Save (tutoriaFallidaPayload nt e)]
            @ (case save c (tutoriaFallidaPayload nt e) of
                 Resuelve _ \<Rightarrow>
                   [ev c k (''Tutor'' @ i_aguda # ''a marcada como FALLIDA.'') ''ERROR'' (n + 2)]
               | Rechaza Nulo \<Rightarrow> []
               | Rechaza (Objeto compError) \<Rightarrow>
                   [ev c k (''ERROR CR'' @ I_aguda # ''TICO guardando tutor'' @ i_aguda
                             # ''a FALLIDA: '' @ plantilla_str (message compError))
                      ''ERROR'' (n + 2)])
          else [])"

definition marca_escapa :: "colaboradores \<Rightarrow> js_error \<Rightarrow> tutoria option \<Rightarrow> bool" where
  "marca_escapa c e nueva =
     (case nueva of
        None \<Rightarrow> False
      | Some nt \<Rightarrow> verdadero (idtutoria nt) \<and> save c (tutoriaFallidaPayload nt e) = Rechaza Nulo)"

text \<open>What the \<^verbatim>\<open>catch\<close> block adds to a log of \<open>n\<close> entries, for a caught object
  with the properties \<open>e\<close> and the value \<open>nueva\<close> of \<^verbatim>\<open>nuevaTutoria\<close>, and the
  value it throws.\<close>

definition traza_compensacion ::
  "colaboradores \<Rightarrow> datosSolicitud \<Rightarrow> string \<Rightarrow> js_error \<Rightarrow> tutoria option \<Rightarrow> nat \<Rightarrow> llamada list" where
  "traza_compensacion c d k e nueva n =
     [ConsoleError (''[MS_Tutorias] CID: '' @ k @ '' - ERROR: '' @ plantilla_str (message e)),
      ev c k (''ERROR: '' @ plantilla_str (message e)) ''ERROR'' (n + 1),
      ev c k (''Compensaci'' @ o_aguda # ''n: cancelando bloqueo de agenda...'') ''ERROR'' (n + 2),
      CancelarBloqueo (idTutor d) (cancelacionPayload d) k]
     @ (case cancelarBloqueo c (idTutor d) (cancelacionPayload d) k of
          Resuelve _ \<Rightarrow>
            ev c k ''Bloqueo de agenda revertido.'' ''ERROR'' (n + 4)
              # traza_marca c k e nueva (n + 5)
        | Rechaza Nulo \<Rightarrow> []
        | Rechaza (Objeto cancelError) \<Rightarrow>
            ev c k (''ERROR CR'' @ I_aguda # ''TICO al intentar revertir el bloqueo en agenda: ''
                     @ plantilla_str (message cancelError))
              ''ERROR'' (n + 4)
              # traza_marca c k e nueva (n + 5))"

definition lanzado_final ::
  "colaboradores \<Rightarrow> datosSolicitud \<Rightarrow> string \<Rightarrow> js_error \<Rightarrow> tutoria option \<Rightarrow> lanzado" where
  "lanzado_final c d k e nueva =
     (if cancelarBloqueo c (idTutor d) (cancelacionPayload d) k = Rechaza Nulo
         \<or> marca_escapa c e nueva
      then Objeto typeErrorMessage else Objeto (errorFinal e))"

text \<open>The outcome of a run whose \<^verbatim>\<open>try\<close> block threw \<open>x\<close> after leaving the log
  \<open>previa\<close>, with \<^verbatim>\<open>nuevaTutoria\<close> holding \<open>nueva\<close>.\<close>

definition aborta ::
  "colaboradores \<Rightarrow> datosSolicitud \<Rightarrow> string \<Rightarrow> lanzado \<Rightarrow> tutoria option \<Rightarrow> llamada list
     \<Rightarrow> (lanzado + tutoria option) \<times> llamada list" where
  "aborta c d k x nueva previa =
     (case x of
        Nulo \<Rightarrow> (Inl (Objeto typeErrorMessage), previa)
      | Objeto e \<Rightarrow>
          (Inl (lanzado_final c d k e nueva),
           previa @ traza_compensacion c d k e nueva (length previa)))"

subsection \<open>Observations on a log\<close>

fun es_bloquearAgenda :: "llamada \<Rightarrow> bool" where
  "es_bloquearAgenda (BloquearAgenda _ _ _) = True"
| "es_bloquearAgenda _ = False"

fun es_cancelarBloqueo :: "llamada \<Rightarrow> bool" where
  "es_cancelarBloqueo (CancelarBloqueo _ _ _) = True"
| "es_cancelarBloqueo _ = False"

fun estado_de :: "save_payload \<Rightarrow> string" where
  "estado_de (TutoriaPendiente _ _ _ _ estado) = estado"
| "estado_de (CambioEstado _ estado _) = estado"

text \<open>The \<^verbatim>\<open>error\<close> property of a payload: \<open>None\<close> when it is missing or
  \<^verbatim>\<open>null\<close>.\<close>

fun error_de :: "save_payload \<Rightarrow> string option" where
  "error_de (TutoriaPendiente _ _ _ _ _) = None"
| "error_de (CambioEstado _ _ error) = error"

fun es_save_con_estado :: "string \<Rightarrow> llamada \<Rightarrow> bool" where
  "es_save_con_estado estado (Save p) = (estado_de p = estado)"
| "es_save_con_estado estado _ = False"

fun status_de :: "llamada \<Rightarrow> string option" where
  "status_de (PublishTrackingEvent e) = Some (status e)"
| "status_de _ = None"

definition es_info :: "llamada \<Rightarrow> bool" where
  "es_info l = (status_de l = Some ''INFO'')"

definition es_error :: "llamada \<Rightarrow> bool" where
  "es_error l = (status_de l = Some ''ERROR'')"

text \<open>The correlation id that a call carries among its arguments, if any.
  \<^verbatim>\<open>save\<close> is called with the payload alone, and no payload has such a property.\<close>

fun correlacion_de :: "llamada \<Rightarrow> string option" where
  "correlacion_de (GetUsuario _ _ k) = Some k"
| "correlacion_de (VerificarDisponibilidad _ _ k) = Some k"
| "correlacion_de (Save _) = None"
| "correlacion_de (BloquearAgenda _ _ k) = Some k"
| "correlacion_de (CancelarBloqueo _ _ k) = Some k"
| "correlacion_de (PublishToQueue _ p) = Some (correlationId p)"
| "correlacion_de (PublishTrackingEvent e) = Some (cid e)"
| "correlacion_de (ConsoleError _) = None"

fun es_save :: "llamada \<Rightarrow> bool" where
  "es_save (Save _) = True"
| "es_save _ = False"

fun es_consoleError :: "llamada \<Rightarrow> bool" where
  "es_consoleError (ConsoleError _) = True"
| "es_consoleError _ = False"

subsection \<open>Example collaborators\<close>

definition solicitud_ejemplo :: datosSolicitud where
  "solicitud_ejemplo =
     \<lparr>idEstudiante = 3, idTutor = 7, fechaSolicitada = ''2025-06-01T10:00'',
      duracionMinutos = 60, materia = ''Algebra''\<rparr>"

definition ana :: usuario where
  "ana = \<lparr>email = Some ''ana@uni.edu'', nombrecompleto = Some ''Ana Ruiz'', nombreCompleto = None\<rparr>"

definition luis :: usuario where
  "luis = \<lparr>email = Some ''luis@uni.edu'', nombrecompleto = None, nombreCompleto = Some ''Luis Paz''\<rparr>"

text \<open>Every collaborator succeeds; the repository numbers the new row 15.\<close>

definition colaboradores_ok :: colaboradores where
  "colaboradores_ok =
     \<lparr>getUsuario = (\<lambda>tipo i k. Resuelve (Some (if tipo = ''estudiantes'' then ana else luis))),
      tutorRechazaPrimero = False,
      verificarDisponibilidad = (\<lambda>i f k. Resuelve True),
      save = (\<lambda>p. case p of
                TutoriaPendiente e t f m est \<Rightarrow>
                  Resuelve (Some \<lparr>idtutoria = Some 15, columnas = [(''estado'', est)]\<rparr>)
              | CambioEstado i est err \<Rightarrow>
                  Resuelve (Some \<lparr>idtutoria = i, columnas = [(''estado'', est)]\<rparr>)),
      bloquearAgenda = (\<lambda>i p k. Resuelve ()),
      cancelarBloqueo = (\<lambda>i p k. Resuelve ()),
      publishToQueue = (\<lambda>q p. Retorna),
      reloj = (\<lambda>n. 1000 + n)\<rparr>"

text \<open>The student is unknown: the lookup resolves to a falsy value.\<close>

definition colaboradores_sin_estudiante :: colaboradores where
  "colaboradores_sin_estudiante =
     colaboradores_ok\<lparr>getUsuario :=
       (\<lambda>tipo i k. Resuelve (if tipo = ''estudiantes'' then None else Some luis))\<rparr>"

text \<open>The slot is taken.\<close>

definition colaboradores_sin_cupo :: colaboradores where
  "colaboradores_sin_cupo = colaboradores_ok\<lparr>verificarDisponibilidad := (\<lambda>i f k. Resuelve False)\<rparr>"

text \<open>\<^verbatim>\<open>publishToQueue\<close> throws before it returns.\<close>

definition colaboradores_publish_lanza :: colaboradores where
  "colaboradores_publish_lanza =
     colaboradores_ok\<lparr>publishToQueue :=
       (\<lambda>q p. Lanza (Objeto \<lparr>statusCode = None, message = Some ''canal cerrado''\<rparr>))\<rparr>"

text \<open>\<^verbatim>\<open>publishToQueue\<close> returns a promise that rejects later.\<close>

definition colaboradores_publish_rechaza :: colaboradores where
  "colaboradores_publish_rechaza =
     colaboradores_ok\<lparr>publishToQueue :=
       (\<lambda>q p. RetornaRechazada (Objeto \<lparr>statusCode = None, message = Some ''canal cerrado''\<rparr>))\<rparr>"

text \<open>The scheduling service refuses the lock with a status code of its own.\<close>

definition colaboradores_agenda_503 :: colaboradores where
  "colaboradores_agenda_503 =
     colaboradores_ok\<lparr>bloquearAgenda :=
       (\<lambda>i p k. Rechaza (Objeto \<lparr>statusCode = Some 503, message = Some ''Agenda fuera de servicio''\<rparr>))\<rparr>"

text \<open>The repository creates the row and then rejects every change of state.\<close>

definition save_solo_crea :: "save_payload \<Rightarrow> tutoria option promesa" where
  "save_solo_crea p =
     (case p of
        TutoriaPendiente e t f m est \<Rightarrow>
          Resuelve (Some \<lparr>idtutoria = Some 15, columnas = [(''estado'', est)]\<rparr>)
      | CambioEstado i est err \<Rightarrow> Rechaza (Objeto \<lparr>statusCode = None, message = Some ''BD sin conexion''\<rparr>))"

text \<open>The confirmation is rejected; the rollback works.\<close>

definition colaboradores_confirmar_falla :: colaboradores where
  "colaboradores_confirmar_falla =
     colaboradores_ok\<lparr>save :=
       (\<lambda>p. if estado_de p = ''FALLIDA'' then save colaboradores_ok p else save_solo_crea p)\<rparr>"

text \<open>The confirmation is rejected, and so are the unlock and the change to
  \<^verbatim>\<open>FALLIDA\<close>.\<close>

definition colaboradores_rollback_falla :: colaboradores where
  "colaboradores_rollback_falla =
     colaboradores_ok\<lparr>save := save_solo_crea,
       cancelarBloqueo :=
         (\<lambda>i p k. Rechaza (Objeto \<lparr>statusCode = Some 502, message = Some ''Agenda no responde''\<rparr>))\<rparr>"

text \<open>The repository resolves the new row without \<^verbatim>\<open>idtutoria\<close>, and the lock is
  refused.\<close>

definition colaboradores_sin_id :: colaboradores where
  "colaboradores_sin_id =
     colaboradores_agenda_503\<lparr>save :=
       (\<lambda>p. Resuelve (Some \<lparr>idtutoria = None, columnas = [(''estado'', estado_de p)]\<rparr>))\<rparr>"

text \<open>The confirmation is rejected with \<^verbatim>\<open>undefined\<close>; every other call succeeds.\<close>

definition colaboradores_confirmar_nulo :: colaboradores where
  "colaboradores_confirmar_nulo =
     colaboradores_ok\<lparr>save :=
       (\<lambda>p. if estado_de p = ''CONFIRMADA'' then Rechaza Nulo else save colaboradores_ok p)\<rparr>"

text \<open>The confirmation is rejected, then the unlock is rejected, and then the change to
  \<^verbatim>\<open>FALLIDA\<close> is rejected with \<^verbatim>\<open>undefined\<close>.\<close>

definition colaboradores_rollback_nulo :: colaboradores where
  "colaboradores_rollback_nulo =
     colaboradores_rollback_falla\<lparr>save :=
       (\<lambda>p. if estado_de p = ''FALLIDA'' then Rechaza Nulo else save_solo_crea p)\<rparr>"

text \<open>The first event of a run with the correlation id \<^verbatim>\<open>cid-1\<close> on the clock of the
  examples.\<close>

definition primer_evento :: evento where
  "primer_evento =
     \<lparr>service = ''MS_Tutorias'', message = ''Validando usuarios...'', cid = ''cid-1'',
      timestamp = 1000, status = ''INFO''\<rparr>"

section \<open>Symbolic execution\<close>

text \<open>Each stage of the function, run from any state, and then the whole function: what it
  returns or throws and the log it leaves, by the way its awaited calls settle.\<close>

lemmas prims = luego_def try_catch_def registrar_def await_def sin_await_def throw_def retornar_def
  track_def asignar_nuevaTutoria_def

lemma validarUsuarios_run: "validarUsuarios c d k s =
  (case usuarios c d k of
     Rechaza x \<Rightarrow> (Inl x, agrega s [ev c k ''Validando usuarios...'' ''INFO'' (length (efectos s)),
         GetUsuario ''estudiantes'' (idEstudiante d) k, GetUsuario ''tutores'' (idTutor d) k])
   | Resuelve (None, t) \<Rightarrow> (Inl (Objeto \<lparr>statusCode = Some 404, message = Some ''Estudiante no encontrado''\<rparr>),
        agrega s [ev c k ''Validando usuarios...'' ''INFO'' (length (efectos s)),
         GetUsuario ''estudiantes'' (idEstudiante d) k, GetUsuario ''tutores'' (idTutor d) k])
   | Resuelve (Some est, None) \<Rightarrow> (Inl (Objeto \<lparr>statusCode = Some 404, message = Some ''Tutor no encontrado''\<rparr>),
        agrega s [ev c k ''Validando usuarios...'' ''INFO'' (length (efectos s)),
         GetUsuario ''estudiantes'' (idEstudiante d) k, GetUsuario ''tutores'' (idTutor d) k])
   | Resuelve (Some est, Some tut) \<Rightarrow> (Inr (est, tut),
        agrega s [ev c k ''Validando usuarios...'' ''INFO'' (length (efectos s)),
         GetUsuario ''estudiantes'' (idEstudiante d) k, GetUsuario ''tutores'' (idTutor d) k,
         ev c k ''Usuarios validados exitosamente.'' ''INFO'' (Suc (Suc (Suc (length (efectos s)))))]))"
  unfolding validarUsuarios_def usuarios_def[symmetric] ev_def agrega_def
  by (simp add: prims split: promesa.split option.split prod.split)

lemma verificar_run: "verificar c d k s =
  (case verificarDisponibilidad c (idTutor d) (fechaSolicitada d) k of
     Rechaza x \<Rightarrow> (Inl x, agrega s [ev c k ''Verificando disponibilidad de agenda...'' ''INFO'' (length (efectos s)),
         VerificarDisponibilidad (idTutor d) (fechaSolicitada d) k])
   | Resuelve disponible \<Rightarrow>
       if disponible then (Inr (), agrega s [ev c k ''Verificando disponibilidad de agenda...'' ''INFO'' (length (efectos s)),
         VerificarDisponibilidad (idTutor d) (fechaSolicitada d) k,
         ev c k ''Agenda disponible.'' ''INFO'' (Suc (Suc (length (efectos s))))])
       else (Inl (Objeto \<lparr>statusCode = Some 409, message = Some ''Horario no disponible''\<rparr>),
         agrega s [ev c k ''Verificando disponibilidad de agenda...'' ''INFO'' (length (efectos s)),
         VerificarDisponibilidad (idTutor d) (fechaSolicitada d) k]))"
  unfolding verificar_def ev_def agrega_def
  by (simp add: prims split: promesa.split)

lemma crearPendiente_run: "crearPendiente c d k s =
  (case save c (tutoriaPendiente d) of
     Rechaza x \<Rightarrow> (Inl x, agrega s [ev c k (''Creando tutor'' @ i_aguda # ''a en estado PENDIENTE...'') ''INFO'' (length (efectos s)),
         Save (tutoriaPendiente d)])
   | Resuelve None \<Rightarrow> (Inl (Objeto typeError), agrega (s\<lparr>nuevaTutoria := None\<rparr>) [ev c k (''Creando tutor'' @ i_aguda # ''a en estado PENDIENTE...'') ''INFO'' (length (efectos s)),
         Save (tutoriaPendiente d)])
   | Resuelve (Some nt) \<Rightarrow> (Inr nt, agrega (s\<lparr>nuevaTutoria := Some nt\<rparr>)
        [ev c k (''Creando tutor'' @ i_aguda # ''a en estado PENDIENTE...'') ''INFO'' (length (efectos s)),
         Save (tutoriaPendiente d),
         ev c k (''Tutor'' @ i_aguda # ''a PENDIENTE creada (ID: '' @ plantilla_num (idtutoria nt) @ '').'') ''INFO''
           (Suc (Suc (length (efectos s))))]))"
  unfolding crearPendiente_def ev_def agrega_def
  by (simp add: prims split: promesa.split option.split)

lemma bloquear_run: "bloquear c d k s =
  (case bloquearAgenda c (idTutor d) (bloqueoPayload d) k of
     Rechaza x \<Rightarrow> (Inl x, agrega s [ev c k ''Bloqueando horario en agenda...'' ''INFO'' (length (efectos s)),
         BloquearAgenda (idTutor d) (bloqueoPayload d) k])
   | Resuelve _ \<Rightarrow> (Inr (), agrega s [ev c k ''Bloqueando horario en agenda...'' ''INFO'' (length (efectos s)),
         BloquearAgenda (idTutor d) (bloqueoPayload d) k,
         ev c k ''Bloqueo de agenda exitoso.'' ''INFO'' (Suc (Suc (length (efectos s))))]))"
  unfolding bloquear_def ev_def agrega_def
  by (simp add: prims split: promesa.split)

lemma notificar_run: "notificar c d k est tut s =
  (case publishToQueue c ''notificaciones_email_queue'' (payloadNotificacion d k est tut) of
     Lanza x \<Rightarrow> (Inl x, agrega s [ev c k (''Publicando evento de notificaci'' @ o_aguda # ''n...'') ''INFO'' (length (efectos s)),
         PublishToQueue ''notificaciones_email_queue'' (payloadNotificacion d k est tut)])
   | _ \<Rightarrow> (Inr (), agrega s [ev c k (''Publicando evento de notificaci'' @ o_aguda # ''n...'') ''INFO'' (length (efectos s)),
         PublishToQueue ''notificaciones_email_queue'' (payloadNotificacion d k est tut),
         ev c k (''Evento de notificaci'' @ o_aguda # ''n enviado.'') ''INFO'' (Suc (Suc (length (efectos s))))]))"
  unfolding notificar_def ev_def agrega_def
  by (simp add: prims split: retorno.split)

lemma confirmar_run: "confirmar c k nt s =
  (case save c (tutoriaConfirmadaPayload nt) of
     Rechaza x \<Rightarrow> (Inl x, agrega s [ev c k (''Actualizando tutor'' @ i_aguda # ''a a CONFIRMADA...'') ''INFO'' (length (efectos s)),
         Save (tutoriaConfirmadaPayload nt)])
   | Resuelve v \<Rightarrow> (Inr v, agrega s [ev c k (''Actualizando tutor'' @ i_aguda # ''a a CONFIRMADA...'') ''INFO'' (length (efectos s)),
         Save (tutoriaConfirmadaPayload nt),
         ev c k (''Tutor'' @ i_aguda # ''a CONFIRMADA correctamente.'') ''INFO'' (Suc (Suc (length (efectos s))))]))"
  unfolding confirmar_def ev_def agrega_def
  by (simp add: prims split: promesa.split)

lemma revertirBloqueo_run: "revertirBloqueo c d k s =
  (case cancelarBloqueo c (idTutor d) (cancelacionPayload d) k of
     Resuelve _ \<Rightarrow> (Inr (), agrega s
       [CancelarBloqueo (idTutor d) (cancelacionPayload d) k,
        ev c k ''Bloqueo de agenda revertido.'' ''ERROR'' (Suc (length (efectos s)))])
   | Rechaza Nulo \<Rightarrow> (Inl (Objeto typeErrorMessage), agrega s
       [CancelarBloqueo (idTutor d) (cancelacionPayload d) k])
   | Rechaza (Objeto cancelError) \<Rightarrow> (Inr (), agrega s
       [CancelarBloqueo (idTutor d) (cancelacionPayload d) k,
        ev c k (''ERROR CR'' @ I_aguda # ''TICO al intentar revertir el bloqueo en agenda: ''
                 @ plantilla_str (message cancelError))
          ''ERROR'' (Suc (length (efectos s)))]))"
  unfolding revertirBloqueo_def ev_def agrega_def
  by (simp add: prims leer_def split: promesa.split lanzado.split)

lemma marcarFallida_run: "marcarFallida c k e s =
  (if marca_escapa c e (nuevaTutoria s) then Inl (Objeto typeErrorMessage) else Inr (),
   agrega s (traza_marca c k e (nuevaTutoria s) (length (efectos s))))"
  unfolding marcarFallida_def ev_def agrega_def traza_marca_def marca_escapa_def
  by (simp add: prims leer_def eval_nat_numeral split: promesa.split lanzado.split option.split)

lemma compensacion_traza: "compensacion c d k x s =
  (case x of
     Nulo \<Rightarrow> (Inl (Objeto typeErrorMessage), s)
   | Objeto e \<Rightarrow>
       (Inl (lanzado_final c d k e (nuevaTutoria s)),
        agrega s (traza_compensacion c d k e (nuevaTutoria s) (length (efectos s)))))"
  unfolding compensacion_def traza_compensacion_def lanzado_final_def
  by (simp add: luego_def registrar_def track_def throw_def retornar_def leer_def
        revertirBloqueo_run marcarFallida_run agrega_def ev_def eval_nat_numeral
        split: promesa.split lanzado.split)

lemmas etapas = validarUsuarios_run verificar_run crearPendiente_run bloquear_run notificar_run
  confirmar_run

lemmas trazas = traza_usuarios_def traza_verificar_def traza_crear_def traza_bloquear_def
  traza_publicar_def traza_confirmar_def traza_confirmada_def

lemma intento_run: "intento c d k inicio =
  (case usuarios c d k of
     Rechaza x \<Rightarrow> (Inl x, \<lparr>nuevaTutoria = None, efectos = traza_usuarios c d k\<rparr>)
   | Resuelve (None, t) \<Rightarrow>
       (Inl (Objeto \<lparr>statusCode = Some 404, message = Some ''Estudiante no encontrado''\<rparr>),
        \<lparr>nuevaTutoria = None, efectos = traza_usuarios c d k\<rparr>)
   | Resuelve (Some est, None) \<Rightarrow>
       (Inl (Objeto \<lparr>statusCode = Some 404, message = Some ''Tutor no encontrado''\<rparr>),
        \<lparr>nuevaTutoria = None, efectos = traza_usuarios c d k\<rparr>)
   | Resuelve (Some est, Some tut) \<Rightarrow>
      (case verificarDisponibilidad c (idTutor d) (fechaSolicitada d) k of
         Rechaza x \<Rightarrow> (Inl x, \<lparr>nuevaTutoria = None, efectos = traza_verificar c d k\<rparr>)
       | Resuelve disponible \<Rightarrow>
          if \<not> disponible then
            (Inl (Objeto \<lparr>statusCode = Some 409, message = Some ''Horario no disponible''\<rparr>),
             \<lparr>nuevaTutoria = None, efectos = traza_verificar c d k\<rparr>)
          else
           (case save c (tutoriaPendiente d) of
              Rechaza x \<Rightarrow> (Inl x, \<lparr>nuevaTutoria = None, efectos = traza_crear c d k\<rparr>)
            | Resuelve None \<Rightarrow> (Inl (Objeto typeError), \<lparr>nuevaTutoria = None, efectos = traza_crear c d k\<rparr>)
            | Resuelve (Some nt) \<Rightarrow>
               (case bloquearAgenda c (idTutor d) (bloqueoPayload d) k of
                  Rechaza x \<Rightarrow> (Inl x, \<lparr>nuevaTutoria = Some nt, efectos = traza_bloquear c d k nt\<rparr>)
                | Resuelve _ \<Rightarrow>
                   (case publishToQueue c ''notificaciones_email_queue'' (payloadNotificacion d k est tut) of
                      Lanza x \<Rightarrow>
                        (Inl x, \<lparr>nuevaTutoria = Some nt, efectos = traza_publicar c d k nt est tut\<rparr>)
                    | _ \<Rightarrow>
                       (case save c (tutoriaConfirmadaPayload nt) of
                          Rechaza x \<Rightarrow>
                            (Inl x, \<lparr>nuevaTutoria = Some nt, efectos = traza_confirmar c d k nt est tut\<rparr>)
                        | Resuelve v \<Rightarrow>
                            (Inr v, \<lparr>nuevaTutoria = Some nt,
                               efectos = traza_confirmada c d k nt est tut\<rparr>)))))))"
  unfolding intento_def inicio_def
  by (simp add: luego_def etapas agrega_def trazas eval_nat_numeral
        split: promesa.split option.split prod.split retorno.split)

lemma solicitarTutoria_run: "solicitarTutoria c d k =
  (case intento c d k inicio of
     (Inl x, s) \<Rightarrow> aborta c d k x (nuevaTutoria s) (efectos s)
   | (Inr v, s) \<Rightarrow> (Inr v, efectos s))"
  unfolding solicitarTutoria_def aborta_def
  by (simp add: try_catch_def compensacion_traza agrega_def
        split: prod.split sum.split lanzado.split)


lemma usuarios_resuelve:
  "getUsuario c ''estudiantes'' (idEstudiante d) k = Resuelve a \<Longrightarrow>
   getUsuario c ''tutores'' (idTutor d) k = Resuelve b \<Longrightarrow>
   usuarios c d k = Resuelve (a, b)"
  by (simp add: usuarios_def promise_all_def)

lemmas caminos = solicitarTutoria_run intento_run

text \<open>Every run is one of eleven: ten ways to fail, each with the log of the \<^verbatim>\<open>try\<close>
  block up to the failure followed by the log of the \<^verbatim>\<open>catch\<close> block, and one way
  to succeed.\<close>

lemma solicitarTutoria_casos:
  obtains
    (usuarios_rechaza) x where "usuarios c d k = Rechaza x"
      and "intento c d k inicio = (Inl x, \<lparr>nuevaTutoria = None, efectos = traza_usuarios c d k\<rparr>)"
      and "solicitarTutoria c d k = aborta c d k x None (traza_usuarios c d k)"
  | (sin_estudiante) t where "usuarios c d k = Resuelve (None, t)"
      and "intento c d k inicio =
             (Inl (Objeto \<lparr>statusCode = Some 404, message = Some ''Estudiante no encontrado''\<rparr>),
              \<lparr>nuevaTutoria = None, efectos = traza_usuarios c d k\<rparr>)"
      and "solicitarTutoria c d k =
             aborta c d k (Objeto \<lparr>statusCode = Some 404, message = Some ''Estudiante no encontrado''\<rparr>) None
               (traza_usuarios c d k)"
  | (sin_tutor) est where "usuarios c d k = Resuelve (Some est, None)"
      and "intento c d k inicio =
             (Inl (Objeto \<lparr>statusCode = Some 404, message = Some ''Tutor no encontrado''\<rparr>),
              \<lparr>nuevaTutoria = None, efectos = traza_usuarios c d k\<rparr>)"
      and "solicitarTutoria c d k =
             aborta c d k (Objeto \<lparr>statusCode = Some 404, message = Some ''Tutor no encontrado''\<rparr>) None
               (traza_usuarios c d k)"
  | (verificar_rechaza) est tut x where "usuarios c d k = Resuelve (Some est, Some tut)"
      and "verificarDisponibilidad c (idTutor d) (fechaSolicitada d) k = Rechaza x"
      and "intento c d k inicio = (Inl x, \<lparr>nuevaTutoria = None, efectos = traza_verificar c d k\<rparr>)"
      and "solicitarTutoria c d k = aborta c d k x None (traza_verificar c d k)"
  | (sin_cupo) est tut where "usuarios c d k = Resuelve (Some est, Some tut)"
      and "verificarDisponibilidad c (idTutor d) (fechaSolicitada d) k = Resuelve False"
      and "intento c d k inicio =
             (Inl (Objeto \<lparr>statusCode = Some 409, message = Some ''Horario no disponible''\<rparr>),
              \<lparr>nuevaTutoria = None, efectos = traza_verificar c d k\<rparr>)"
      and "solicitarTutoria c d k =
             aborta c d k (Objeto \<lparr>statusCode = Some 409, message = Some ''Horario no disponible''\<rparr>) None
               (traza_verificar c d k)"
  | (crear_rechaza) est tut x where "usuarios c d k = Resuelve (Some est, Some tut)"
      and "verificarDisponibilidad c (idTutor d) (fechaSolicitada d) k = Resuelve True"
      and "save c (tutoriaPendiente d) = Rechaza x"
      and "intento c d k inicio = (Inl x, \<lparr>nuevaTutoria = None, efectos = traza_crear c d k\<rparr>)"
      and "solicitarTutoria c d k = aborta c d k x None (traza_crear c d k)"
  | (crear_nulo) est tut where "usuarios c d k = Resuelve (Some est, Some tut)"
      and "verificarDisponibilidad c (idTutor d) (fechaSolicitada d) k = Resuelve True"
      and "save c (tutoriaPendiente d) = Resuelve None"
      and "intento c d k inicio =
             (Inl (Objeto typeError), \<lparr>nuevaTutoria = None, efectos = traza_crear c d k\<rparr>)"
      and "solicitarTutoria c d k = aborta c d k (Objeto typeError) None (traza_crear c d k)"
  | (bloquear_rechaza) est tut nt x where "usuarios c d k = Resuelve (Some est, Some tut)"
      and "verificarDisponibilidad c (idTutor d) (fechaSolicitada d) k = Resuelve True"
      and "save c (tutoriaPendiente d) = Resuelve (Some nt)"
      and "bloquearAgenda c (idTutor d) (bloqueoPayload d) k = Rechaza x"
      and "intento c d k inicio =
             (Inl x, \<lparr>nuevaTutoria = Some nt, efectos = traza_bloquear c d k nt\<rparr>)"
      and "solicitarTutoria c d k = aborta c d k x (Some nt) (traza_bloquear c d k nt)"
  | (publicar_lanza) est tut nt x where "usuarios c d k = Resuelve (Some est, Some tut)"
      and "verificarDisponibilidad c (idTutor d) (fechaSolicitada d) k = Resuelve True"
      and "save c (tutoriaPendiente d) = Resuelve (Some nt)"
      and "bloquearAgenda c (idTutor d) (bloqueoPayload d) k = Resuelve ()"
      and "publishToQueue c ''notificaciones_email_queue'' (payloadNotificacion d k est tut) = Lanza x"
      and "intento c d k inicio =
             (Inl x, \<lparr>nuevaTutoria = Some nt, efectos = traza_publicar c d k nt est tut\<rparr>)"
      and "solicitarTutoria c d k = aborta c d k x (Some nt) (traza_publicar c d k nt est tut)"
  | (confirmar_rechaza) est tut nt x where "usuarios c d k = Resuelve (Some est, Some tut)"
      and "verificarDisponibilidad c (idTutor d) (fechaSolicitada d) k = Resuelve True"
      and "save c (tutoriaPendiente d) = Resuelve (Some nt)"
      and "bloquearAgenda c (idTutor d) (bloqueoPayload d) k = Resuelve ()"
      and "\<forall>y. publishToQueue c ''notificaciones_email_queue'' (payloadNotificacion d k est tut)
             \<noteq> Lanza y"
      and "save c (tutoriaConfirmadaPayload nt) = Rechaza x"
      and "intento c d k inicio =
             (Inl x, \<lparr>nuevaTutoria = Some nt, efectos = traza_confirmar c d k nt est tut\<rparr>)"
      and "solicitarTutoria c d k = aborta c d k x (Some nt) (traza_confirmar c d k nt est tut)"
  | (confirmada) est tut nt v where "usuarios c d k = Resuelve (Some est, Some tut)"
      and "verificarDisponibilidad c (idTutor d) (fechaSolicitada d) k = Resuelve True"
      and "save c (tutoriaPendiente d) = Resuelve (Some nt)"
      and "bloquearAgenda c (idTutor d) (bloqueoPayload d) k = Resuelve ()"
      and "\<forall>y. publishToQueue c ''notificaciones_email_queue'' (payloadNotificacion d k est tut)
             \<noteq> Lanza y"
      and "save c (tutoriaConfirmadaPayload nt) = Resuelve v"
      and "intento c d k inicio =
             (Inr v, \<lparr>nuevaTutoria = Some nt, efectos = traza_confirmada c d k nt est tut\<rparr>)"
      and "solicitarTutoria c d k = (Inr v, traza_confirmada c d k nt est tut)"
proof (cases "usuarios c d k")
  case (Rechaza x)
  then show thesis by (intro usuarios_rechaza [of x]) (simp_all add: caminos)
next
  case (Resuelve par)
  obtain e t where par: "par = (e, t)" by (cases par)
  show thesis
  proof (cases e)
    case None
    with Resuelve par show thesis by (intro sin_estudiante [of t]) (simp_all add: caminos)
  next
    case (Some est)
    note est = this
    show thesis
    proof (cases t)
      case None
      with Resuelve par est show thesis by (intro sin_tutor [of est]) (simp_all add: caminos)
    next
      case (Some tut)
      with Resuelve par est have u: "usuarios c d k = Resuelve (Some est, Some tut)" by simp
      show thesis
      proof (cases "verificarDisponibilidad c (idTutor d) (fechaSolicitada d) k")
        case (Rechaza x)
        with u show thesis by (intro verificar_rechaza [of est tut x]) (simp_all add: caminos)
      next
        case (Resuelve disponible)
        show thesis
        proof (cases disponible)
          case False
          with u Resuelve show thesis by (intro sin_cupo [of est tut]) (simp_all add: caminos)
        next
          case True
          with Resuelve have v: "verificarDisponibilidad c (idTutor d) (fechaSolicitada d) k = Resuelve True"
            by simp
          show thesis
          proof (cases "save c (tutoriaPendiente d)")
            case (Rechaza x)
            with u v show thesis by (intro crear_rechaza [of est tut x]) (simp_all add: caminos)
          next
            case (Resuelve guardada)
            show thesis
            proof (cases guardada)
              case None
              with u v Resuelve show thesis by (intro crear_nulo [of est tut]) (simp_all add: caminos)
            next
              case (Some nt)
              with Resuelve have g: "save c (tutoriaPendiente d) = Resuelve (Some nt)" by simp
              show thesis
              proof (cases "bloquearAgenda c (idTutor d) (bloqueoPayload d) k")
                case (Rechaza x)
                with u v g show thesis
                  by (intro bloquear_rechaza [of est tut nt x]) (simp_all add: caminos)
              next
                case (Resuelve unidad)
                then have b: "bloquearAgenda c (idTutor d) (bloqueoPayload d) k = Resuelve ()" by simp
                show thesis
                proof (cases "\<exists>x. publishToQueue c ''notificaciones_email_queue''
                                (payloadNotificacion d k est tut) = Lanza x")
                  case True
                  then obtain x where "publishToQueue c ''notificaciones_email_queue''
                                (payloadNotificacion d k est tut) = Lanza x" ..
                  with u v g b show thesis
                    by (intro publicar_lanza [of est tut nt x]) (simp_all add: caminos)
                next
                  case False
                  then have p: "\<forall>y. publishToQueue c ''notificaciones_email_queue''
                                (payloadNotificacion d k est tut) \<noteq> Lanza y" by simp
                  show thesis
                  proof (cases "save c (tutoriaConfirmadaPayload nt)")
                    case (Rechaza x)
                    with u v g b p show thesis
                      by (intro confirmar_rechaza [of est tut nt x])
                         (simp_all add: caminos split: retorno.split)
                  next
                    case (Resuelve w)
                    with u v g b p show thesis
                      by (intro confirmada [of est tut nt w])
                         (simp_all add: caminos split: retorno.split)
                  qed
                qed
              qed
            qed
          qed
        qed
      qed
    qed
  qed
qed


lemmas cargas = tutoriaPendiente_def tutoriaConfirmadaPayload_def tutoriaFallidaPayload_def
  bloqueoPayload_def cancelacionPayload_def

lemmas explicitas = aborta_def trazas traza_compensacion_def traza_marca_def marca_escapa_def
  lanzado_final_def ev_def

lemmas ejemplos = colaboradores_ok_def colaboradores_sin_estudiante_def colaboradores_sin_cupo_def
  colaboradores_publish_lanza_def colaboradores_publish_rechaza_def colaboradores_agenda_503_def
  colaboradores_confirmar_falla_def colaboradores_rollback_falla_def colaboradores_sin_id_def
  colaboradores_confirmar_nulo_def colaboradores_rollback_nulo_def
  save_solo_crea_def solicitud_ejemplo_def usuarios_def promise_all_def


section \<open>The claims\<close>





text \<open>
  C2. The claim is that an execution failing in steps 1 to 3 makes no lock and no unlock
  call. With an unknown student the function fails in step 1 with the 404 error and never
  calls \<^verbatim>\<open>bloquearAgenda\<close>, but its \<^verbatim>\<open>catch\<close> block calls
  \<^verbatim>\<open>cancelarBloqueo\<close> all the same, for a lock that was never taken.
\<close>

theorem C2_desbloqueo_sin_bloqueo:
  "fst (solicitarTutoria colaboradores_sin_estudiante solicitud_ejemplo ''cid-1'')
     = Inl (Objeto \<lparr>statusCode = Some 404,
            message = Some ''No se pudo completar la solicitud: Estudiante no encontrado''\<rparr>)
   \<and> filter es_bloquearAgenda
        (snd (solicitarTutoria colaboradores_sin_estudiante solicitud_ejemplo ''cid-1'')) = []
   \<and> filter es_cancelarBloqueo
        (snd (solicitarTutoria colaboradores_sin_estudiante solicitud_ejemplo ''cid-1''))
       = [CancelarBloqueo 7 (CancelacionPayload ''2025-06-01T10:00'' 60) ''cid-1'']"
  by (simp add: caminos ejemplos cargas explicitas errorFinal_def statusCode_o_500_def
        plantilla_str_def)

text \<open>
  C3, as the code has it. When steps 1 to 4 succeed and \<^verbatim>\<open>publishToQueue\<close> does not
  throw before returning (it returns, or returns a promise that rejects later, which is
  never awaited), the function goes on to step 6: it calls \<^verbatim>\<open>save\<close> with the
  \<^verbatim>\<open>CONFIRMADA\<close> payload and, when that resolves, returns what it resolved to.
\<close>

theorem C3_publicacion_no_lanzada:
  assumes "getUsuario c ''estudiantes'' (idEstudiante d) k = Resuelve (Some est)"
    and "getUsuario c ''tutores'' (idTutor d) k = Resuelve (Some tut)"
    and "verificarDisponibilidad c (idTutor d) (fechaSolicitada d) k = Resuelve True"
    and "save c (tutoriaPendiente d) = Resuelve (Some nt)"
    and "bloquearAgenda c (idTutor d) (bloqueoPayload d) k = Resuelve ()"
    and "\<And>x. publishToQueue c ''notificaciones_email_queue'' (payloadNotificacion d k est tut)
           \<noteq> Lanza x"
  shows "Save (tutoriaConfirmadaPayload nt) \<in> set (snd (solicitarTutoria c d k))
       \<and> (\<forall>v. save c (tutoriaConfirmadaPayload nt) = Resuelve v
              \<longrightarrow> fst (solicitarTutoria c d k) = Inr v)"
proof -
  have u: "usuarios c d k = Resuelve (Some est, Some tut)"
    using assms(1,2) by (rule usuarios_resuelve)
  show ?thesis
    using u assms(3-6)
    by (cases rule: solicitarTutoria_casos [of c d k])
       (auto simp: aborta_def trazas split: lanzado.splits)
qed

text \<open>A publish that fails after returning does not stop the saga.\<close>

theorem C3_testigo:
  "publishToQueue colaboradores_publish_rechaza ''notificaciones_email_queue''
       (payloadNotificacion solicitud_ejemplo ''cid-1'' ana luis)
     = RetornaRechazada (Objeto \<lparr>statusCode = None, message = Some ''canal cerrado''\<rparr>)
   \<and> Save (CambioEstado (Some 15) ''CONFIRMADA'' None)
       \<in> set (snd (solicitarTutoria colaboradores_publish_rechaza solicitud_ejemplo ''cid-1''))
   \<and> fst (solicitarTutoria colaboradores_publish_rechaza solicitud_ejemplo ''cid-1'')
       = Inr (Some \<lparr>idtutoria = Some 15, columnas = [(''estado'', ''CONFIRMADA'')]\<rparr>)"
  using C3_publicacion_no_lanzada [of colaboradores_publish_rechaza solicitud_ejemplo "''cid-1''"
      ana luis "\<lparr>idtutoria = Some 15, columnas = [(''estado'', ''PENDIENTE'')]\<rparr>"]
  by (simp add: ejemplos cargas)

text \<open>
  C3 as stated fails when \<^verbatim>\<open>publishToQueue\<close> throws before returning: the call at
  line 91 stands inside the \<^verbatim>\<open>try\<close> block with no handler of its own, so after a
  lock that succeeded the function aborts, never calls the \<^verbatim>\<open>CONFIRMADA\<close> save and
  throws a 500 error.
\<close>

theorem C3_publicacion_lanza_contraejemplo:
  "bloquearAgenda colaboradores_publish_lanza 7 (BloqueoPayload ''2025-06-01T10:00'' 60 3) ''cid-1''
     = Resuelve ()
   \<and> filter es_bloquearAgenda
        (snd (solicitarTutoria colaboradores_publish_lanza solicitud_ejemplo ''cid-1''))
       = [BloquearAgenda 7 (BloqueoPayload ''2025-06-01T10:00'' 60 3) ''cid-1'']
   \<and> publishToQueue colaboradores_publish_lanza ''notificaciones_email_queue''
        (payloadNotificacion solicitud_ejemplo ''cid-1'' ana luis)
       = Lanza (Objeto \<lparr>statusCode = None, message = Some ''canal cerrado''\<rparr>)
   \<and> filter (es_save_con_estado ''CONFIRMADA'')
        (snd (solicitarTutoria colaboradores_publish_lanza solicitud_ejemplo ''cid-1'')) = []
   \<and> fst (solicitarTutoria colaboradores_publish_lanza solicitud_ejemplo ''cid-1'')
       = Inl (Objeto \<lparr>statusCode = Some 500,
              message = Some ''No se pudo completar la solicitud: canal cerrado''\<rparr>)"
  by (simp add: caminos ejemplos cargas explicitas errorFinal_def statusCode_o_500_def verdadero_def
        plantilla_str_def)







text \<open>
  C6, as the code has it. When both users exist, the slot is available and every call
  succeeds, the function returns what the \<^verbatim>\<open>CONFIRMADA\<close> save resolved to, and the
  log holds exactly 12 tracking events with status \<^verbatim>\<open>INFO\<close> and none with status
  \<^verbatim>\<open>ERROR\<close>.
\<close>

theorem C6_camino_feliz:
  assumes "getUsuario c ''estudiantes'' (idEstudiante d) k = Resuelve (Some est)"
    and "getUsuario c ''tutores'' (idTutor d) k = Resuelve (Some tut)"
    and "verificarDisponibilidad c (idTutor d) (fechaSolicitada d) k = Resuelve True"
    and "save c (tutoriaPendiente d) = Resuelve (Some nt)"
    and "bloquearAgenda c (idTutor d) (bloqueoPayload d) k = Resuelve ()"
    and "publishToQueue c ''notificaciones_email_queue'' (payloadNotificacion d k est tut) = Retorna"
    and "save c (tutoriaConfirmadaPayload nt) = Resuelve v"
  shows "fst (solicitarTutoria c d k) = Inr v
       \<and> length (filter es_info (snd (solicitarTutoria c d k))) = 12
       \<and> filter es_error (snd (solicitarTutoria c d k)) = []"
proof -
  have u: "usuarios c d k = Resuelve (Some est, Some tut)"
    using assms(1,2) by (rule usuarios_resuelve)
  have run: "solicitarTutoria c d k = (Inr v, traza_confirmada c d k nt est tut)"
    by (simp add: solicitarTutoria_run intento_run u assms(3-7))
  show ?thesis
    by (simp add: run trazas ev_def es_info_def es_error_def)
qed

text \<open>The run in which everything succeeds.\<close>

theorem C6_testigo:
  "fst (solicitarTutoria colaboradores_ok solicitud_ejemplo ''cid-1'')
     = Inr (Some \<lparr>idtutoria = Some 15, columnas = [(''estado'', ''CONFIRMADA'')]\<rparr>)
   \<and> length (filter es_info (snd (solicitarTutoria colaboradores_ok solicitud_ejemplo ''cid-1''))) = 12
   \<and> filter es_error (snd (solicitarTutoria colaboradores_ok solicitud_ejemplo ''cid-1'')) = []"
  using C6_camino_feliz [of colaboradores_ok solicitud_ejemplo "''cid-1''" ana luis
      "\<lparr>idtutoria = Some 15, columnas = [(''estado'', ''PENDIENTE'')]\<rparr>"
      "Some \<lparr>idtutoria = Some 15, columnas = [(''estado'', ''CONFIRMADA'')]\<rparr>"]
  by (simp add: ejemplos cargas)

text \<open>
  C6 as stated fails on the count: \<^verbatim>\<open>track\<close> is called twice for each of the six
  steps, so the successful run does not leave 6 \<^verbatim>\<open>INFO\<close> events.
\<close>

theorem C6_seis_eventos_contraejemplo:
  "fst (solicitarTutoria colaboradores_ok solicitud_ejemplo ''cid-1'')
     = Inr (Some \<lparr>idtutoria = Some 15, columnas = [(''estado'', ''CONFIRMADA'')]\<rparr>)
   \<and> length (filter es_info (snd (solicitarTutoria colaboradores_ok solicitud_ejemplo ''cid-1''))) \<noteq> 6"
  by (simp add: caminos ejemplos cargas trazas ev_def es_info_def)

text \<open>
  C7, as the code has it. In every run, a payload given to \<^verbatim>\<open>save\<close> has a non-null
  \<^verbatim>\<open>error\<close> only if its \<^verbatim>\<open>estado\<close> is \<^verbatim>\<open>FALLIDA\<close>, and the
  \<^verbatim>\<open>error\<close> of a \<^verbatim>\<open>FALLIDA\<close> payload is the \<^verbatim>\<open>message\<close> of the
  failure, so it is missing when the failure has none. In every run where the save of
  step 3 resolved to a row with a truthy \<^verbatim>\<open>idtutoria\<close>, the \<^verbatim>\<open>try\<close> block
  then failed with a value \<open>error\<close> other than \<^verbatim>\<open>null\<close> or
  \<^verbatim>\<open>undefined\<close>, and the unlock is not rejected with \<^verbatim>\<open>null\<close> or
  \<^verbatim>\<open>undefined\<close>: exactly one \<^verbatim>\<open>save\<close> with \<^verbatim>\<open>estado = FALLIDA\<close>
  is called, for that \<^verbatim>\<open>idtutoria\<close> and with \<^verbatim>\<open>error\<close> the
  \<^verbatim>\<open>message\<close> of \<open>error\<close>; unless this save is rejected with
  \<^verbatim>\<open>null\<close> or \<^verbatim>\<open>undefined\<close>, the thrown error is the one built from
  \<open>error\<close>; and when this save is rejected with another value, the rejection is the
  last tracking event of the run.
\<close>

theorem C7_marca_fallida:
  "(\<forall>p. Save p \<in> set (snd (solicitarTutoria c d k))
        \<longrightarrow> (error_de p \<noteq> None \<longrightarrow> estado_de p = ''FALLIDA''))
   \<and> (\<forall>p. Save p \<in> set (snd (solicitarTutoria c d k)) \<and> estado_de p = ''FALLIDA''
        \<longrightarrow> (\<exists>error. fst (intento c d k inicio) = Inl (Objeto error)
               \<and> error_de p = message error))
   \<and> (getUsuario c ''estudiantes'' (idEstudiante d) k = Resuelve (Some est)
      \<and> getUsuario c ''tutores'' (idTutor d) k = Resuelve (Some tut)
      \<and> verificarDisponibilidad c (idTutor d) (fechaSolicitada d) k = Resuelve True
      \<and> save c (tutoriaPendiente d) = Resuelve (Some nt)
      \<and> verdadero (idtutoria nt)
      \<and> fst (intento c d k inicio) = Inl (Objeto error)
      \<and> cancelarBloqueo c (idTutor d) (cancelacionPayload d) k \<noteq> Rechaza Nulo
      \<longrightarrow> filter (es_save_con_estado ''FALLIDA'') (snd (solicitarTutoria c d k))
            = [Save (CambioEstado (idtutoria nt) ''FALLIDA'' (message error))]
          \<and> (save c (CambioEstado (idtutoria nt) ''FALLIDA'' (message error)) \<noteq> Rechaza Nulo
               \<longrightarrow> fst (solicitarTutoria c d k) = Inl (Objeto (errorFinal error)))
          \<and> (\<forall>e. save c (CambioEstado (idtutoria nt) ''FALLIDA'' (message error))
                    = Rechaza (Objeto e)
                \<longrightarrow> last (snd (solicitarTutoria c d k))
                      = ev c k (''ERROR CR'' @ I_aguda # ''TICO guardando tutor'' @ i_aguda
                                 # ''a FALLIDA: '' @ plantilla_str (message e))
                          ''ERROR'' (length (snd (solicitarTutoria c d k)) - 1)))"
proof (intro conjI impI, goal_cases)
  case 1
  show ?case
    by (cases rule: solicitarTutoria_casos [of c d k])
       (auto simp: explicitas cargas split: lanzado.splits promesa.splits if_splits)
next
  case 2
  show ?case
    by (cases rule: solicitarTutoria_casos [of c d k])
       (auto simp: explicitas cargas split: lanzado.splits promesa.splits if_splits)
next
  case 3
  then have u: "usuarios c d k = Resuelve (Some est, Some tut)"
    by (simp add: usuarios_resuelve)
  from 3 u show ?case
    by (cases rule: solicitarTutoria_casos [of c d k])
       (auto simp: explicitas cargas split: lanzado.splits promesa.splits)
next
  case 4
  then have u: "usuarios c d k = Resuelve (Some est, Some tut)"
    by (simp add: usuarios_resuelve)
  from 4 u show ?case
    by (cases rule: solicitarTutoria_casos [of c d k])
       (auto simp: explicitas cargas split: lanzado.splits promesa.splits)
next
  case 5
  then have u: "usuarios c d k = Resuelve (Some est, Some tut)"
    by (simp add: usuarios_resuelve)
  from 5 u show ?case
    by (cases rule: solicitarTutoria_casos [of c d k])
       (auto simp: explicitas cargas eval_nat_numeral split: lanzado.splits promesa.splits)
qed

text \<open>The confirmation fails for row 15, and the change to \<^verbatim>\<open>FALLIDA\<close> is rejected.\<close>

theorem C7_testigo:
  "verdadero (Some 15)
   \<and> fst (intento colaboradores_rollback_falla solicitud_ejemplo ''cid-1'' inicio)
       = Inl (Objeto \<lparr>statusCode = None, message = Some ''BD sin conexion''\<rparr>)
   \<and> filter (es_save_con_estado ''FALLIDA'')
        (snd (solicitarTutoria colaboradores_rollback_falla solicitud_ejemplo ''cid-1''))
       = [Save (CambioEstado (Some 15) ''FALLIDA'' (Some ''BD sin conexion''))]
   \<and> fst (solicitarTutoria colaboradores_rollback_falla solicitud_ejemplo ''cid-1'')
       = Inl (Objeto \<lparr>statusCode = Some 500,
              message = Some ''No se pudo completar la solicitud: BD sin conexion''\<rparr>)
   \<and> last (snd (solicitarTutoria colaboradores_rollback_falla solicitud_ejemplo ''cid-1''))
       = ev colaboradores_rollback_falla ''cid-1''
           (''ERROR CR'' @ I_aguda # ''TICO guardando tutor'' @ i_aguda
              # ''a FALLIDA: BD sin conexion'')
           ''ERROR''
           (length (snd (solicitarTutoria colaboradores_rollback_falla solicitud_ejemplo ''cid-1'')) - 1)"
proof -
  have i: "fst (intento colaboradores_rollback_falla solicitud_ejemplo ''cid-1'' inicio)
     = Inl (Objeto \<lparr>statusCode = None, message = Some ''BD sin conexion''\<rparr>)"
    by (simp add: intento_run ejemplos cargas)
  have h: "getUsuario colaboradores_rollback_falla ''estudiantes'' (idEstudiante solicitud_ejemplo) ''cid-1''
        = Resuelve (Some ana)
      \<and> getUsuario colaboradores_rollback_falla ''tutores'' (idTutor solicitud_ejemplo) ''cid-1''
        = Resuelve (Some luis)
      \<and> verificarDisponibilidad colaboradores_rollback_falla (idTutor solicitud_ejemplo)
          (fechaSolicitada solicitud_ejemplo) ''cid-1'' = Resuelve True
      \<and> save colaboradores_rollback_falla (tutoriaPendiente solicitud_ejemplo)
        = Resuelve (Some \<lparr>idtutoria = Some 15, columnas = [(''estado'', ''PENDIENTE'')]\<rparr>)
      \<and> verdadero (idtutoria \<lparr>idtutoria = Some 15, columnas = [(''estado'', ''PENDIENTE'')]\<rparr>)
      \<and> cancelarBloqueo colaboradores_rollback_falla (idTutor solicitud_ejemplo)
          (cancelacionPayload solicitud_ejemplo) ''cid-1'' \<noteq> Rechaza Nulo"
    by (simp add: ejemplos cargas verdadero_def)
  have s: "save colaboradores_rollback_falla
        (CambioEstado (Some 15) ''FALLIDA'' (Some ''BD sin conexion''))
      = Rechaza (Objeto \<lparr>statusCode = None, message = Some ''BD sin conexion''\<rparr>)"
    by (simp add: ejemplos)
  from C7_marca_fallida [of colaboradores_rollback_falla solicitud_ejemplo "''cid-1''" ana luis
      "\<lparr>idtutoria = Some 15, columnas = [(''estado'', ''PENDIENTE'')]\<rparr>"
      "\<lparr>statusCode = None, message = Some ''BD sin conexion''\<rparr>"] h i s
  show ?thesis
    by (auto simp: verdadero_def errorFinal_def statusCode_o_500_def plantilla_str_def)
qed

text \<open>
  C7 as stated fails when the save of step 3 resolves to a row that has no
  \<^verbatim>\<open>idtutoria\<close>: the run aborts at the lock, and the guard of line 145 skips the
  \<^verbatim>\<open>FALLIDA\<close> save.
\<close>

theorem C7_sin_idtutoria_contraejemplo:
  "save colaboradores_sin_id (tutoriaPendiente solicitud_ejemplo)
     = Resuelve (Some \<lparr>idtutoria = None, columnas = [(''estado'', ''PENDIENTE'')]\<rparr>)
   \<and> filter es_save (snd (solicitarTutoria colaboradores_sin_id solicitud_ejemplo ''cid-1''))
       = [Save (TutoriaPendiente 3 7 (NewDate ''2025-06-01T10:00'') ''Algebra'' ''PENDIENTE'')]
   \<and> fst (solicitarTutoria colaboradores_sin_id solicitud_ejemplo ''cid-1'')
       = Inl (Objeto \<lparr>statusCode = Some 503,
              message = Some ''No se pudo completar la solicitud: Agenda fuera de servicio''\<rparr>)
   \<and> filter (es_save_con_estado ''FALLIDA'')
        (snd (solicitarTutoria colaboradores_sin_id solicitud_ejemplo ''cid-1'')) = []"
  by (simp add: caminos ejemplos cargas explicitas errorFinal_def statusCode_o_500_def verdadero_def
        plantilla_str_def)

text \<open>
  C8, as the code has it. The correlation id is passed unchanged to both identity lookups,
  the availability check, the lock and the unlock, inside the payload of the notification
  and in every tracking event. The calls of \<^verbatim>\<open>tutoriaRepository.save\<close> carry none
  (\<^verbatim>\<open>console.error\<close> is no collaborator).
\<close>

theorem C8_correlacion:
  "\<forall>l \<in> set (snd (solicitarTutoria c d k)).
     correlacion_de l = (if es_save l \<or> es_consoleError l then None else Some k)"
  by (cases rule: solicitarTutoria_casos [of c d k])
     (auto simp: explicitas payloadNotificacion_def
           split: lanzado.splits promesa.splits option.splits if_splits)

text \<open>The notification of the successful run carries the correlation id.\<close>

theorem C8_testigo:
  "PublishToQueue ''notificaciones_email_queue''
       (payloadNotificacion solicitud_ejemplo ''cid-1'' ana luis)
     \<in> set (snd (solicitarTutoria colaboradores_ok solicitud_ejemplo ''cid-1''))
   \<and> correlacion_de (PublishToQueue ''notificaciones_email_queue''
        (payloadNotificacion solicitud_ejemplo ''cid-1'' ana luis)) = Some ''cid-1''"
proof -
  have m: "PublishToQueue ''notificaciones_email_queue''
       (payloadNotificacion solicitud_ejemplo ''cid-1'' ana luis)
     \<in> set (snd (solicitarTutoria colaboradores_ok solicitud_ejemplo ''cid-1''))"
    by (simp add: caminos ejemplos cargas trazas)
  from bspec [OF C8_correlacion m] m show ?thesis
    by simp
qed

text \<open>
  C8 as stated fails for the record store: the save of step 3 in the successful run is
  called with the payload alone.
\<close>

theorem C8_save_sin_correlacion_contraejemplo:
  "Save (TutoriaPendiente 3 7 (NewDate ''2025-06-01T10:00'') ''Algebra'' ''PENDIENTE'')
     \<in> set (snd (solicitarTutoria colaboradores_ok solicitud_ejemplo ''cid-1''))
   \<and> correlacion_de (Save (TutoriaPendiente 3 7 (NewDate ''2025-06-01T10:00'') ''Algebra'' ''PENDIENTE''))
       \<noteq> Some ''cid-1''"
  by (simp add: caminos ejemplos cargas trazas)

text \<open>
  C9, as the code has it. Every tracking event of a run is an object with the properties
  \<^verbatim>\<open>service\<close>, \<^verbatim>\<open>message\<close>, \<^verbatim>\<open>cid\<close>, \<^verbatim>\<open>timestamp\<close> and
  \<^verbatim>\<open>status\<close>; its \<^verbatim>\<open>service\<close> is \<^verbatim>\<open>MS_Tutorias\<close>, the correlation id
  is under \<^verbatim>\<open>cid\<close>, and its \<^verbatim>\<open>status\<close> is \<^verbatim>\<open>INFO\<close> or
  \<^verbatim>\<open>ERROR\<close>.
\<close>

theorem C9_forma_evento:
  "\<forall>e. PublishTrackingEvent e \<in> set (snd (solicitarTutoria c d k)) \<longrightarrow>
     service e = ''MS_Tutorias'' \<and> cid e = k \<and> (status e = ''INFO'' \<or> status e = ''ERROR'')"
  by (cases rule: solicitarTutoria_casos [of c d k])
     (auto simp: explicitas split: lanzado.splits promesa.splits option.splits if_splits)

text \<open>The first event of the successful run.\<close>

theorem C9_testigo:
  "PublishTrackingEvent primer_evento
     \<in> set (snd (solicitarTutoria colaboradores_ok solicitud_ejemplo ''cid-1''))
   \<and> service primer_evento = ''MS_Tutorias'' \<and> cid primer_evento = ''cid-1''
   \<and> status primer_evento = ''INFO''"
proof -
  have m: "PublishTrackingEvent primer_evento
     \<in> set (snd (solicitarTutoria colaboradores_ok solicitud_ejemplo ''cid-1''))"
    by (simp add: caminos ejemplos cargas trazas ev_def primer_evento_def)
  from C9_forma_evento [of colaboradores_ok solicitud_ejemplo "''cid-1''"] m show ?thesis
    by (auto simp: primer_evento_def)
qed

text \<open>
  C9 as stated fails on the value of \<^verbatim>\<open>service\<close>: it is not
  \<^verbatim>\<open>tutoring-saga\<close>.
\<close>

theorem C9_servicio_contraejemplo:
  "hd (snd (solicitarTutoria colaboradores_ok solicitud_ejemplo ''cid-1''))
     = PublishTrackingEvent primer_evento
   \<and> service primer_evento \<noteq> ''tutoring-saga''"
  by (simp add: caminos ejemplos cargas trazas ev_def primer_evento_def)




end
